theory Spec2Isabelle
  imports Main
begin

section \<open>Host values and graph data\<close>

text \<open>
  The tracer of \<^verbatim>\<open>torch2trt.py\<close> runs a host tensor program and records a graph.
  Python's integers are unbounded, so every integer of the source is an \<open>int\<close>.
  An exception of the source is a value of \<open>py_error\<close>; the three \<^verbatim>\<open>assert\<close>
  statements of \<^verbatim>\<open>check_torch_dtype\<close> and \<^verbatim>\<open>trt_\<close> all raise AssertionError and
  are told apart by the asserted condition.
\<close>

datatype failed_assert =
    dtypes_match      \<comment> \<open>\<^verbatim>\<open>assert(dtype == t.dtype)\<close>, line 104\<close>
  | dtype_inferred    \<comment> \<open>\<^verbatim>\<open>assert(dtype is not None)\<close>, line 119\<close>
  | trt_tensor_found  \<comment> \<open>\<^verbatim>\<open>assert(trt_tensor is not None)\<close>, line 165\<close>

datatype py_error = AssertionError failed_assert | ZeroDivisionError | IndexError | TypeError

datatype torch_dtype =
  torch_int8 | torch_int32 | torch_long | torch_float16 | torch_float | torch_bool

text \<open>
  A host tensor is an object: \<open>tensor_id\<close> is its identity (the attribute \<^verbatim>\<open>_trt\<close> is
  attached to the object, not to its value), \<open>shape\<close> is \<^verbatim>\<open>t.shape\<close> and \<open>dtype\<close> is
  \<^verbatim>\<open>t.dtype\<close>.
\<close>

record tensor =
  tensor_id :: nat
  shape :: "int list"
  dtype :: torch_dtype

section \<open>The indexing translator: slices\<close>

text \<open>
  A Python \<^verbatim>\<open>slice(start, stop, step)\<close>; each field is an integer or \<^verbatim>\<open>None\<close>.
\<close>

record py_slice =
  start :: "int option"
  stop :: "int option"
  step :: "int option"

text \<open>
  \<^verbatim>\<open>slice_to_trt(dim_size, dim_slice)\<close> of \<^verbatim>\<open>converters/getitem.py\<close>. Python's \<^verbatim>\<open>//\<close>
  is floor division, which is \<open>div\<close> on \<open>int\<close>; it raises ZeroDivisionError for a
  zero divisor, where \<open>div\<close> would return 0.
\<close>

definition slice_to_trt :: "int \<Rightarrow> py_slice \<Rightarrow> py_error + int \<times> int \<times> int" where
  "slice_to_trt dim_size dim_slice =
     (let start' = (case start dim_slice of None \<Rightarrow> 0 | Some v \<Rightarrow> v);
          stop' = (case stop dim_slice of None \<Rightarrow> dim_size | Some v \<Rightarrow> v);
          stride = (case step dim_slice of None \<Rightarrow> 1 | Some v \<Rightarrow> v)
      in if stride = 0 then Inl ZeroDivisionError
         else Inr (start', (stop' - start' - 1) div stride + 1, stride))"

text \<open>The defaults of the three fields, as the claims name them.\<close>

definition start_or :: "py_slice \<Rightarrow> int" where
  "start_or s = (case start s of None \<Rightarrow> 0 | Some v \<Rightarrow> v)"

definition stop_or :: "int \<Rightarrow> py_slice \<Rightarrow> int" where
  "stop_or D s = (case stop s of None \<Rightarrow> D | Some v \<Rightarrow> v)"

definition step_or :: "py_slice \<Rightarrow> int" where
  "step_or s = (case step s of None \<Rightarrow> 1 | Some v \<Rightarrow> v)"

section \<open>Graph handles and the network under construction\<close>

text \<open>
  The graph builder (\<^verbatim>\<open>ctx.network\<close>) belongs to the target engine and is not part of
  the repository; only its node constructors are used. The network is the list of the
  layers added so far. A graph handle (\<^verbatim>\<open>layer.get_output(0)\<close>) names the layer that
  produced it by its position in that list, which is what reference equality of handles
  compares, and carries the shape the constructor was given: a constant has the shape it
  was created with (an input too, through \<^verbatim>\<open>add_inputs\<close>), a shuffle has its \<^verbatim>\<open>reshape_dims\<close>, a slice has its sizes, and a
  gather replaces the dimension at its axis by the shape of the indices.
\<close>

record trt_tensor =
  producer :: nat
  trt_shape :: "int list"

text \<open>A Python scalar: a float (mantissa and binary exponent) or an int.\<close>

datatype py_scalar = py_float int int | py_int int

text \<open>
  The array handed to \<^verbatim>\<open>add_constant\<close>: the values of a host tensor
  (\<^verbatim>\<open>t.detach().cpu().numpy()\<close>), or a scalar times \<^verbatim>\<open>torch.ones((1,), dtype=dtype)\<close>.
\<close>

datatype weights = tensor_weights nat | scalar_weights py_scalar torch_dtype

datatype layer =
    Input "int list"
  | Constant "int list" weights
  | Shuffle trt_tensor "int list"
  | Slice trt_tensor "int list" "int list" "int list"
  | Gather trt_tensor trt_tensor int

text \<open>
  The state of one trace: the network, and the attribute \<^verbatim>\<open>_trt\<close> of every host tensor
  object (\<open>None\<close> where \<^verbatim>\<open>hasattr(t, '_trt')\<close> is false).
\<close>

record trace =
  network :: "layer list"
  attr_trt :: "nat \<Rightarrow> trt_tensor option"

definition add_constant :: "int list \<Rightarrow> weights \<Rightarrow> trace \<Rightarrow> trt_tensor \<times> trace" where
  "add_constant shp w st =
     (\<lparr>producer = length (network st), trt_shape = shp\<rparr>,
      st\<lparr>network := network st @ [Constant shp w]\<rparr>)"

definition add_shuffle :: "trt_tensor \<Rightarrow> int list \<Rightarrow> trace \<Rightarrow> trt_tensor \<times> trace" where
  "add_shuffle inp reshape_dims st =
     (\<lparr>producer = length (network st), trt_shape = reshape_dims\<rparr>,
      st\<lparr>network := network st @ [Shuffle inp reshape_dims]\<rparr>)"

definition add_slice ::
  "trt_tensor \<Rightarrow> int list \<Rightarrow> int list \<Rightarrow> int list \<Rightarrow> trace \<Rightarrow> trt_tensor \<times> trace" where
  "add_slice inp starts sizes strides st =
     (\<lparr>producer = length (network st), trt_shape = sizes\<rparr>,
      st\<lparr>network := network st @ [Slice inp starts sizes strides]\<rparr>)"

definition add_gather :: "trt_tensor \<Rightarrow> trt_tensor \<Rightarrow> int \<Rightarrow> trace \<Rightarrow> trt_tensor \<times> trace" where
  "add_gather inp indices axis st =
     (\<lparr>producer = length (network st),
       trt_shape = take (nat axis) (trt_shape inp) @ trt_shape indices
                   @ drop (nat axis + 1) (trt_shape inp)\<rparr>,
      st\<lparr>network := network st @ [Gather inp indices axis]\<rparr>)"

section \<open>The broadcast resolver\<close>

text \<open>
  An operand of \<^verbatim>\<open>trt_\<close>: a host tensor, a Python float, a Python int, or a value that is
  none of these (which no branch of \<^verbatim>\<open>trt_\<close> classifies).
\<close>

datatype operand = Tensor tensor | PyFloat int int | PyInt int | PyOther

text \<open>The first loop of \<^verbatim>\<open>check_torch_dtype\<close>: all tensors must have the dtype of the first.\<close>

fun tensor_dtypes :: "torch_dtype option \<Rightarrow> operand list \<Rightarrow> py_error + torch_dtype option" where
  "tensor_dtypes d [] = Inr d"
| "tensor_dtypes d (Tensor t # ts) =
     (case d of
        None \<Rightarrow> tensor_dtypes (Some (dtype t)) ts
      | Some d' \<Rightarrow> if d' = dtype t then tensor_dtypes d ts
                   else Inl (AssertionError dtypes_match))"
| "tensor_dtypes d (_ # ts) = tensor_dtypes d ts"

text \<open>The second loop: a scalar sets the dtype only while none is set.\<close>

fun scalar_dtypes :: "torch_dtype option \<Rightarrow> operand list \<Rightarrow> torch_dtype option" where
  "scalar_dtypes d [] = d"
| "scalar_dtypes d (PyFloat m e # ts) =
     scalar_dtypes (case d of None \<Rightarrow> Some torch_float | Some d' \<Rightarrow> d) ts"
| "scalar_dtypes d (PyInt i # ts) =
     scalar_dtypes (case d of None \<Rightarrow> Some torch_int32 | Some d' \<Rightarrow> d) ts"
| "scalar_dtypes d (_ # ts) = scalar_dtypes d ts"

definition check_torch_dtype :: "operand list \<Rightarrow> py_error + torch_dtype" where
  "check_torch_dtype tensors =
     (case tensor_dtypes None tensors of
        Inl e \<Rightarrow> Inl e
      | Inr d \<Rightarrow>
          (case scalar_dtypes d tensors of
             None \<Rightarrow> Inl (AssertionError dtype_inferred)
           | Some d' \<Rightarrow> Inr d'))"

text \<open>
  The rank a tensor operand contributes to the broadcast rank: the rank of its handle if
  it has one, of its host shape otherwise.
\<close>

definition num_dim :: "trace \<Rightarrow> tensor \<Rightarrow> nat" where
  "num_dim st t =
     (case attr_trt st (tensor_id t) of
        None \<Rightarrow> length (shape t)
      | Some h \<Rightarrow> length (trt_shape h))"

fun broadcast_num_dim :: "trace \<Rightarrow> nat \<Rightarrow> operand list \<Rightarrow> nat" where
  "broadcast_num_dim st b [] = b"
| "broadcast_num_dim st b (Tensor t # ts) =
     broadcast_num_dim st (if num_dim st t > b then num_dim st t else b) ts"
| "broadcast_num_dim st b (_ # ts) = broadcast_num_dim st b ts"

text \<open>
  The first half of the loop body of \<^verbatim>\<open>trt_\<close> (GET TRT TENSOR, OR CREATE TRT CONSTANT):
  a bound tensor gives its handle, a leaf tensor gets a constant that is stored in
  \<^verbatim>\<open>t._trt\<close>, a scalar gets a constant of shape \<^verbatim>\<open>(1,)\<close> that is stored nowhere.
\<close>

fun get_trt_tensor :: "torch_dtype \<Rightarrow> operand \<Rightarrow> trace \<Rightarrow> py_error + trt_tensor \<times> trace" where
  "get_trt_tensor d (Tensor t) st =
     (case attr_trt st (tensor_id t) of
        Some h \<Rightarrow> Inr (h, st)
      | None \<Rightarrow>
          (let (h, st') = add_constant (shape t) (tensor_weights (tensor_id t)) st
           in Inr (h, st'\<lparr>attr_trt := (attr_trt st')(tensor_id t \<mapsto> h)\<rparr>)))"
| "get_trt_tensor d (PyFloat m e) st =
     Inr (add_constant [1] (scalar_weights (py_float m e) d) st)"
| "get_trt_tensor d (PyInt i) st =
     Inr (add_constant [1] (scalar_weights (py_int i) d) st)"
| "get_trt_tensor d PyOther st = Inl (AssertionError trt_tensor_found)"

text \<open>
  The second half (MAKE TRT TENSOR BROADCASTABLE IF IT IS NOT ALREADY): a handle of lower
  rank goes through a shuffle layer that puts dimensions of size 1 in front.
\<close>

definition make_broadcastable :: "nat \<Rightarrow> trt_tensor \<Rightarrow> trace \<Rightarrow> trt_tensor \<times> trace" where
  "make_broadcastable b trt_tensor st =
     (if length (trt_shape trt_tensor) < b
      then (let diff = b - length (trt_shape trt_tensor);
                shp = replicate diff 1 @ trt_shape trt_tensor
            in add_shuffle trt_tensor shp st)
      else (trt_tensor, st))"

fun trt_loop ::
  "torch_dtype \<Rightarrow> nat \<Rightarrow> operand list \<Rightarrow> trace \<Rightarrow> py_error + trt_tensor list \<times> trace" where
  "trt_loop d b [] st = Inr ([], st)"
| "trt_loop d b (t # ts) st =
     (case get_trt_tensor d t st of
        Inl e \<Rightarrow> Inl e
      | Inr (h, st1) \<Rightarrow>
          (let (h', st2) = make_broadcastable b h st1
           in case trt_loop d b ts st2 of
                Inl e \<Rightarrow> Inl e
              | Inr (hs, st3) \<Rightarrow> Inr (h' # hs, st3)))"

text \<open>
  \<^verbatim>\<open>trt_\<close> returns the handle itself for one operand and a tuple otherwise. (A constant
  name cannot end in an underscore, hence the prime.)
\<close>

datatype trt_result = One trt_tensor | Many "trt_tensor list"

definition trt_' :: "trace \<Rightarrow> operand list \<Rightarrow> py_error + trt_result \<times> trace" where
  "trt_' st tensors =
     (case check_torch_dtype tensors of
        Inl e \<Rightarrow> Inl e
      | Inr d \<Rightarrow>
          (case trt_loop d (broadcast_num_dim st 0 tensors) tensors st of
             Inl e \<Rightarrow> Inl e
           | Inr (hs, st') \<Rightarrow>
               Inr (case hs of [h] \<Rightarrow> One h | _ \<Rightarrow> Many hs, st')))"

text \<open>The handles of a result, in operand order.\<close>

fun handles :: "trt_result \<Rightarrow> trt_tensor list" where
  "handles (One h) = [h]"
| "handles (Many hs) = hs"

section \<open>The indexing translator\<close>

text \<open>
  An element of an index expression: \<^verbatim>\<open>...\<close>, a slice, \<^verbatim>\<open>None\<close>, an integer or an
  index tensor. The argument of \<^verbatim>\<open>__getitem__\<close> is a tuple of elements or one element
  alone.
\<close>

datatype index =
    idx_Ellipsis
  | idx_slice py_slice
  | idx_None
  | idx_int int
  | idx_Tensor tensor

datatype index_arg = py_tuple "index list" | py_single index

definition full_slice :: index where
  "full_slice = idx_slice \<lparr>start = None, stop = None, step = None\<rparr>"

fun is_slice :: "index \<Rightarrow> bool" where
  "is_slice (idx_slice s) = True"
| "is_slice _ = False"

fun is_int :: "index \<Rightarrow> bool" where
  "is_int (idx_int i) = True"
| "is_int _ = False"

text \<open>\<^verbatim>\<open>isinstance(s, torch.Tensor) and (s.dtype==torch.int32 or s.dtype==torch.long)\<close>\<close>

fun is_int_tensor :: "index \<Rightarrow> bool" where
  "is_int_tensor (idx_Tensor t) = (dtype t = torch_int32 \<or> dtype t = torch_long)"
| "is_int_tensor _ = False"

text \<open>\<^verbatim>\<open>num_slice_types\<close> counts the elements that are a slice or an integer.\<close>

definition num_slice_types :: "index list \<Rightarrow> nat" where
  "num_slice_types slices = length (filter (\<lambda>s. is_slice s \<or> is_int s) slices)"

text \<open>
  Step 1. The inner \<^verbatim>\<open>while num_ellipsis > 0\<close> appends full slices and counts
  \<^verbatim>\<open>num_ellipsis\<close> down; the counter is shared by every ellipsis of the expression.
\<close>

function expand_ellipsis :: "int \<Rightarrow> index list \<Rightarrow> int \<times> index list" where
  "expand_ellipsis num_ellipsis new_slices =
     (if num_ellipsis > 0
      then expand_ellipsis (num_ellipsis - 1) (new_slices @ [full_slice])
      else (num_ellipsis, new_slices))"
  by pat_completeness auto
termination
  by (relation "measure (\<lambda>(n, new_slices). nat n)") auto

fun replace_ellipsis :: "int \<Rightarrow> index list \<Rightarrow> index list \<Rightarrow> index list" where
  "replace_ellipsis num_ellipsis new_slices [] = new_slices"
| "replace_ellipsis num_ellipsis new_slices (idx_Ellipsis # ss) =
     (let (n', new') = expand_ellipsis num_ellipsis new_slices
      in replace_ellipsis n' new' ss)"
| "replace_ellipsis num_ellipsis new_slices (idx_slice s # ss) =
     replace_ellipsis num_ellipsis (new_slices @ [idx_slice s]) ss"
| "replace_ellipsis num_ellipsis new_slices (idx_None # ss) =
     replace_ellipsis num_ellipsis (new_slices @ [idx_None]) ss"
| "replace_ellipsis num_ellipsis new_slices (idx_int i # ss) =
     replace_ellipsis num_ellipsis (new_slices @ [idx_int i]) ss"
| "replace_ellipsis num_ellipsis new_slices (idx_Tensor t # ss) =
     replace_ellipsis num_ellipsis (new_slices @ [full_slice]) ss"

text \<open>\<^verbatim>\<open>while num_slice_types(new_slices) < len(input.shape)\<close>: fill missing slices at end.\<close>

function fill_missing :: "nat \<Rightarrow> index list \<Rightarrow> index list" where
  "fill_missing rank new_slices =
     (if num_slice_types new_slices < rank
      then fill_missing rank (new_slices @ [full_slice])
      else new_slices)"
  by pat_completeness auto
termination
  by (relation "measure (\<lambda>(rank, new_slices). rank - num_slice_types new_slices)")
     (auto simp: num_slice_types_def full_slice_def)

text \<open>\<^verbatim>\<open>if not isinstance(slices, tuple): slices = (slices,)\<close>\<close>

fun as_tuple :: "index_arg \<Rightarrow> index list" where
  "as_tuple (py_tuple ss) = ss"
| "as_tuple (py_single s) = [s]"

text \<open>The whole of step 1: the list \<^verbatim>\<open>new_slices\<close> for an input of the given host shape.\<close>

definition normalize :: "int list \<Rightarrow> index list \<Rightarrow> index list" where
  "normalize input_shape slices =
     fill_missing (length input_shape)
       (replace_ellipsis (int (length input_shape) - int (num_slice_types slices)) [] slices)"

text \<open>
  Step 3. The loop walks \<^verbatim>\<open>new_slices\<close> with the cursor \<^verbatim>\<open>input_dim\<close>; it stops when the
  cursor reaches the rank of the handle, and reads the size of the dimension from the
  host shape (IndexError beyond it).
\<close>

fun slice_loop ::
  "int list \<Rightarrow> nat \<Rightarrow> nat \<Rightarrow> int list \<times> int list \<times> int list \<Rightarrow> index list
     \<Rightarrow> py_error + int list \<times> int list \<times> int list" where
  "slice_loop input_shape trt_rank input_dim acc [] = Inr acc"
| "slice_loop input_shape trt_rank input_dim (starts, sizes, strides) (s # ss) =
     (if input_dim \<ge> trt_rank then Inr (starts, sizes, strides)
      else if input_dim \<ge> length input_shape then Inl IndexError
      else
        (let input_size = input_shape ! input_dim
         in case s of
              idx_slice sl \<Rightarrow>
                (case slice_to_trt input_size sl of
                   Inl e \<Rightarrow> Inl e
                 | Inr (start', size', stride) \<Rightarrow>
                     slice_loop input_shape trt_rank (input_dim + 1)
                       (starts @ [start'], sizes @ [size'], strides @ [stride]) ss)
            | idx_int i \<Rightarrow>
                slice_loop input_shape trt_rank (input_dim + 1)
                  (starts @ [i], sizes @ [1], strides @ [1]) ss
            | _ \<Rightarrow> slice_loop input_shape trt_rank input_dim (starts, sizes, strides) ss))"

text \<open>
  Step 3.5. \<^verbatim>\<open>gather_index\<close> lists the positions in \<^verbatim>\<open>slices\<close> of the integer index
  tensors; each is paired here with the tensor \<^verbatim>\<open>slices[gidx]\<close> that the loop reads back.
\<close>

fun gather_index :: "nat \<Rightarrow> index list \<Rightarrow> (nat \<times> tensor) list" where
  "gather_index e [] = []"
| "gather_index e (idx_Tensor t # ss) =
     (if is_int_tensor (idx_Tensor t) then (e, t) # gather_index (e + 1) ss
      else gather_index (e + 1) ss)"
| "gather_index e (_ # ss) = gather_index (e + 1) ss"

fun gather_loop ::
  "trt_tensor \<Rightarrow> (nat \<times> tensor) list \<Rightarrow> trace \<Rightarrow> py_error + trt_tensor \<times> trace" where
  "gather_loop output_trt [] st = Inr (output_trt, st)"
| "gather_loop output_trt ((gidx, index_tensor) # gs) st =
     (case trt_' st [Tensor index_tensor] of
        Inl e \<Rightarrow> Inl e
      | Inr (Many hs, st1) \<Rightarrow> Inl TypeError
      | Inr (One index_tensor_trt, st1) \<Rightarrow>
          (let (out, st2) = add_gather output_trt index_tensor_trt (int gidx) st1
           in gather_loop out gs st2))"

text \<open>
  \<^verbatim>\<open>convert_tensor_getitem(ctx)\<close>, with \<^verbatim>\<open>ctx.support_dynamic_shape\<close>, \<^verbatim>\<open>ctx.method_args[0]\<close>,
  \<^verbatim>\<open>ctx.method_args[1]\<close> and \<^verbatim>\<open>ctx.method_return\<close> as arguments and \<^verbatim>\<open>ctx.network\<close> in the
  trace. Step 2 rebinds \<^verbatim>\<open>slices\<close> only in legacy mode; step 3 walks \<^verbatim>\<open>new_slices\<close> in
  both modes; steps 3.5 and 4 read \<^verbatim>\<open>slices\<close>.
\<close>

definition convert_tensor_getitem ::
  "bool \<Rightarrow> tensor \<Rightarrow> index_arg \<Rightarrow> tensor \<Rightarrow> trace \<Rightarrow> py_error + trace" where
  "convert_tensor_getitem support_dynamic_shape input slices0 output st =
     (case trt_' st [Tensor input] of
        Inl e \<Rightarrow> Inl e
      | Inr (Many hs, st1) \<Rightarrow> Inl TypeError
      | Inr (One input_trt, st1) \<Rightarrow>
          (let slices = as_tuple slices0;
               new_slices = normalize (shape input) slices;
               slices = (if \<not> support_dynamic_shape then tl new_slices else slices)
           in case slice_loop (shape input) (length (trt_shape input_trt)) 0 ([], [], [])
                     new_slices of
                Inl e \<Rightarrow> Inl e
              | Inr (starts, sizes, strides) \<Rightarrow>
                  (let (output_trt, st2) = add_slice input_trt starts sizes strides st1
                   in case gather_loop output_trt (gather_index 0 slices) st2 of
                        Inl e \<Rightarrow> Inl e
                      | Inr (output_trt, st3) \<Rightarrow>
                          (let num_non_slice = length (filter (\<lambda>s. \<not> is_slice s) slices);
                               (output_trt, st4) =
                                 (if num_non_slice > 0
                                  then add_shuffle output_trt
                                         (if support_dynamic_shape then shape output
                                          else tl (shape output)) st3
                                  else (output_trt, st3))
                           in Inr (st4\<lparr>attr_trt :=
                                     (attr_trt st4)(tensor_id output \<mapsto> output_trt)\<rparr>)))))"

section \<open>The interception wrapper\<close>

text \<open>
  An entry of the registry \<^verbatim>\<open>CONVERTERS\<close>: the translator and the flag \<^verbatim>\<open>is_real\<close>. A
  translator reads the bound call (args, kwargs, return value) and the graph state \<open>'g\<close>;
  it may rebind \<^verbatim>\<open>ctx.method_return\<close> and extend the graph.
\<close>

record ('a, 'g) converter_entry =
  converter :: "'a \<Rightarrow> 'a \<Rightarrow> 'a \<Rightarrow> 'g \<Rightarrow> 'a \<times> 'g"
  is_real :: bool

text \<open>
  The conversion context. \<open>observed\<close> is not a field of the source: it records, for
  every wrapper invocation in order of entry, the operation and the value of the local
  \<^verbatim>\<open>skip\<close> that the invocation settled on.
\<close>

record ('a, 'g) ctx =
  lock :: bool
  method_args :: "'a option"
  method_kwargs :: "'a option"
  method_return :: "'a option"
  method_str :: "string option"
  graph :: 'g
  observed :: "(string \<times> bool) list"

text \<open>
  One invocation of a wrapper made by \<^verbatim>\<open>attach_converter(ctx, method, converter,
  method_str)\<close>: the operation, its registry entry, the arguments, the value the original
  \<^verbatim>\<open>method\<close> returns, and the invocations of other wrappers that \<^verbatim>\<open>method\<close> makes while
  it runs, in order.
\<close>

datatype ('a, 'g) call =
  Call string "('a, 'g) converter_entry" 'a 'a 'a "('a, 'g) call list"

fun wrapper :: "('a, 'g) call \<Rightarrow> ('a, 'g) ctx \<Rightarrow> 'a \<times> ('a, 'g) ctx" where
  "wrapper (Call mstr entry args kwargs outputs nested) c =
     (let skip = lock c;
          c1 = (if \<not> lock c \<and> is_real entry then c\<lparr>lock := True\<rparr> else c);
          c2 = c1\<lparr>observed := observed c1 @ [(mstr, skip)]\<rparr>;
          c3 = fold (\<lambda>n s. snd (wrapper n s)) nested c2
      in if \<not> skip
         then
           (let c4 = c3\<lparr>method_args := Some args, method_kwargs := Some kwargs,
                        method_return := Some outputs, method_str := Some mstr\<rparr>;
                (ret, g) = converter entry args kwargs outputs (graph c4);
                c5 = c4\<lparr>method_return := Some ret, graph := g\<rparr>
            in (ret, c5\<lparr>method_args := None, method_kwargs := None,
                        method_return := None, lock := False\<rparr>))
         else (outputs, c3))"

text \<open>The operations of all wrapper invocations below a call, in order of entry.\<close>

fun calls_of :: "('a, 'g) call \<Rightarrow> string list" where
  "calls_of (Call mstr entry args kwargs outputs nested) = mstr # concat (map calls_of nested)"

section \<open>Properties\<close>

text \<open>
  C2. For a slice element (start, stop, step) on a dimension of size D, with \<^verbatim>\<open>None\<close>
  fields defaulting to start = 0, stop = D and step = 1, the element count that
  \<^verbatim>\<open>slice_to_trt\<close> computes is floor((stop - start - 1) / step) + 1, whenever the step is not
  zero (a zero step raises ZeroDivisionError and no count exists). In particular
  D = 5, (0,5,1) gives 5; D = 5, (1,None,2) gives 2; D = 5, (1,3,2) gives 1;
  D = 4, (0,3,4) gives 1.
\<close>

theorem slice_to_trt_size:
  "(step_or s \<noteq> 0 \<longrightarrow>
      slice_to_trt D s =
        Inr (start_or s, (stop_or D s - start_or s - 1) div step_or s + 1, step_or s))
   \<and> slice_to_trt 5 \<lparr>start = Some 0, stop = Some 5, step = Some 1\<rparr> = Inr (0, 5, 1)
   \<and> slice_to_trt 5 \<lparr>start = Some 1, stop = None, step = Some 2\<rparr> = Inr (1, 2, 2)
   \<and> slice_to_trt 5 \<lparr>start = Some 1, stop = Some 3, step = Some 2\<rparr> = Inr (1, 1, 2)
   \<and> slice_to_trt 4 \<lparr>start = Some 0, stop = Some 3, step = Some 4\<rparr> = Inr (0, 1, 4)"
  by (simp add: slice_to_trt_def start_or_def stop_or_def step_or_def Let_def)

theorem slice_to_trt_size_witness:
  "step_or \<lparr>start = Some 1, stop = None, step = Some 2\<rparr> \<noteq> 0
   \<and> slice_to_trt 7 \<lparr>start = Some 1, stop = None, step = Some 2\<rparr> = Inr (1, 3, 2)"
  using slice_to_trt_size [of "\<lparr>start = Some 1, stop = None, step = Some 2\<rparr>" 7]
  by (simp add: start_or_def stop_or_def step_or_def)

end
